theory Spec2Isabelle
  imports Complex_Main "HOL-Library.Sublist"
begin

section \<open>JavaScript values\<close>

text \<open>
  A JavaScript \<^verbatim>\<open>number\<close> is modelled as a real together with the three IEEE values that
  are not reals. Rounding error, overflow and the sign of zero are not modelled. Numbers that
  the program receives from JSON or from the database are finite, so they are plain reals;
  \<open>jsnum\<close> is used wherever the program itself can produce \<^verbatim>\<open>NaN\<close>.
\<close>

datatype jsnum = Num real | PosInf | NegInf | NaN

fun js_neg :: "jsnum \<Rightarrow> jsnum" where
  "js_neg (Num a) = Num (- a)"
| "js_neg PosInf = NegInf"
| "js_neg NegInf = PosInf"
| "js_neg NaN = NaN"

fun js_add :: "jsnum \<Rightarrow> jsnum \<Rightarrow> jsnum" where
  "js_add (Num a) (Num b) = Num (a + b)"
| "js_add NaN y = NaN"
| "js_add x NaN = NaN"
| "js_add PosInf NegInf = NaN"
| "js_add NegInf PosInf = NaN"
| "js_add PosInf y = PosInf"
| "js_add x PosInf = PosInf"
| "js_add NegInf y = NegInf"
| "js_add x NegInf = NegInf"

definition js_sub :: "jsnum \<Rightarrow> jsnum \<Rightarrow> jsnum" where
  "js_sub x y = js_add x (js_neg y)"

definition signedInf :: "bool \<Rightarrow> jsnum" where
  "signedInf positive = (if positive then PosInf else NegInf)"

fun js_mul :: "jsnum \<Rightarrow> jsnum \<Rightarrow> jsnum" where
  "js_mul (Num a) (Num b) = Num (a * b)"
| "js_mul NaN y = NaN"
| "js_mul x NaN = NaN"
| "js_mul (Num a) PosInf = (if a = 0 then NaN else signedInf (0 < a))"
| "js_mul (Num a) NegInf = (if a = 0 then NaN else signedInf (a < 0))"
| "js_mul PosInf (Num b) = (if b = 0 then NaN else signedInf (0 < b))"
| "js_mul NegInf (Num b) = (if b = 0 then NaN else signedInf (b < 0))"
| "js_mul PosInf PosInf = PosInf"
| "js_mul NegInf NegInf = PosInf"
| "js_mul PosInf NegInf = NegInf"
| "js_mul NegInf PosInf = NegInf"

fun js_div :: "jsnum \<Rightarrow> jsnum \<Rightarrow> jsnum" where
  "js_div (Num a) (Num b) =
     (if b \<noteq> 0 then Num (a / b) else if a = 0 then NaN else signedInf (0 < a))"
| "js_div NaN y = NaN"
| "js_div x NaN = NaN"
| "js_div (Num a) PosInf = Num 0"
| "js_div (Num a) NegInf = Num 0"
| "js_div PosInf (Num b) = signedInf (0 \<le> b)"
| "js_div NegInf (Num b) = signedInf (b < 0)"
| "js_div PosInf PosInf = NaN"
| "js_div PosInf NegInf = NaN"
| "js_div NegInf PosInf = NaN"
| "js_div NegInf NegInf = NaN"

fun js_abs :: "jsnum \<Rightarrow> jsnum" where
  "js_abs (Num a) = Num \<bar>a\<bar>"
| "js_abs PosInf = PosInf"
| "js_abs NegInf = PosInf"
| "js_abs NaN = NaN"

text \<open>\<^verbatim>\<open>a > b\<close>: false as soon as one side is \<^verbatim>\<open>NaN\<close>.\<close>

fun js_gt :: "jsnum \<Rightarrow> jsnum \<Rightarrow> bool" where
  "js_gt (Num a) (Num b) = (b < a)"
| "js_gt NaN y = False"
| "js_gt x NaN = False"
| "js_gt PosInf PosInf = False"
| "js_gt PosInf y = True"
| "js_gt x PosInf = False"
| "js_gt NegInf y = False"
| "js_gt x NegInf = True"

text \<open>\<^verbatim>\<open>Math.max(a, b)\<close>: \<^verbatim>\<open>NaN\<close> as soon as one argument is.\<close>

fun js_max :: "jsnum \<Rightarrow> jsnum \<Rightarrow> jsnum" where
  "js_max NaN y = NaN"
| "js_max x NaN = NaN"
| "js_max x y = (if js_gt y x then y else x)"

text \<open>
  The value read by \<^verbatim>\<open>obj[key]\<close> on an object literal whose own properties are numbers:
  an own number, something inherited from \<^verbatim>\<open>Object.prototype\<close> (a function or an object),
  or \<^verbatim>\<open>undefined\<close>.
\<close>

datatype jsval = Undefined | NumberVal real | ObjectVal

fun truthy :: "jsval \<Rightarrow> bool" where
  "truthy Undefined = False"
| "truthy (NumberVal v) = (v \<noteq> 0)"
| "truthy ObjectVal = True"

text \<open>\<^verbatim>\<open>quantity * v\<close>: a function, a plain object and \<^verbatim>\<open>undefined\<close> all convert to \<^verbatim>\<open>NaN\<close>.\<close>

fun js_times :: "real \<Rightarrow> jsval \<Rightarrow> jsnum" where
  "js_times q (NumberVal v) = Num (q * v)"
| "js_times q ObjectVal = NaN"
| "js_times q Undefined = NaN"

definition Object_prototype_properties :: "string list" where
  "Object_prototype_properties =
     [''constructor'', ''__defineGetter__'', ''__defineSetter__'', ''hasOwnProperty'',
      ''__lookupGetter__'', ''__lookupSetter__'', ''isPrototypeOf'', ''propertyIsEnumerable'',
      ''toString'', ''valueOf'', ''__proto__'', ''toLocaleString'']"

definition getProperty :: "(string \<times> real) list \<Rightarrow> string \<Rightarrow> jsval" where
  "getProperty obj key =
     (case map_of obj key of
        Some v \<Rightarrow> NumberVal v
      | None \<Rightarrow> if key \<in> set Object_prototype_properties then ObjectVal else Undefined)"

text \<open>\<^verbatim>\<open>a || b\<close> on a number and on an optional number: zero and absent are falsy.\<close>

definition or_num :: "real \<Rightarrow> real \<Rightarrow> real" where
  "or_num a b = (if a \<noteq> 0 then a else b)"

definition or_opt :: "real option \<Rightarrow> real \<Rightarrow> real" where
  "or_opt a b = (case a of Some v \<Rightarrow> or_num v b | None \<Rightarrow> b)"

text \<open>
  Reading a \<^verbatim>\<open>const\<close> binding before its initialiser has finished throws a
  \<^verbatim>\<open>ReferenceError\<close>.
\<close>

datatype js_error = ReferenceError

datatype 'a binding = Uninitialized | Initialized 'a

fun readBinding :: "'a binding \<Rightarrow> js_error + 'a" where
  "readBinding Uninitialized = Inl ReferenceError"
| "readBinding (Initialized v) = Inr v"


section \<open>Strings\<close>

text \<open>
  Strings are sequences of code units below 256, read as Latin-1. Lower-casing a capital
  letter of that range sets bit 5 of its code.
\<close>

fun toLowerCase_char :: "char \<Rightarrow> char" where
  "toLowerCase_char (Char b0 b1 b2 b3 b4 b5 b6 b7) =
     (let n = (of_char (Char b0 b1 b2 b3 b4 b5 b6 b7) :: nat) in
      if (65 \<le> n \<and> n \<le> 90) \<or> (192 \<le> n \<and> n \<le> 222 \<and> n \<noteq> 215)
      then Char b0 b1 b2 b3 b4 True b6 b7
      else Char b0 b1 b2 b3 b4 b5 b6 b7)"

definition toLowerCase :: "string \<Rightarrow> string" where
  "toLowerCase s = map toLowerCase_char s"

text \<open>White space of \<^verbatim>\<open>trim\<close> and of \<^verbatim>\<open>\s\<close>: TAB, LF, VT, FF, CR, SP and NBSP.\<close>

definition isWhitespace :: "char \<Rightarrow> bool" where
  "isWhitespace c = ((of_char c :: nat) \<in> {9, 10, 11, 12, 13, 32, 160})"

definition trim :: "string \<Rightarrow> string" where
  "trim s = rev (dropWhile isWhitespace (rev (dropWhile isWhitespace s)))"

text \<open>\<^verbatim>\<open>s.replace(/\s+/g, ' ')\<close>\<close>

function collapseWhitespace :: "string \<Rightarrow> string" where
  "collapseWhitespace [] = []"
| "collapseWhitespace (c # cs) =
     (if isWhitespace c then CHR '' '' # collapseWhitespace (dropWhile isWhitespace cs)
      else c # collapseWhitespace cs)"
  by pat_completeness auto
termination
  by (relation "measure length") (auto simp: length_dropWhile_le less_Suc_eq_le)

text \<open>\<^verbatim>\<open>s.includes(t)\<close>: \<open>t\<close> occurs in \<open>s\<close> as a contiguous block.\<close>

fun js_includes :: "string \<Rightarrow> string \<Rightarrow> bool" where
  "js_includes [] t = (t = [])"
| "js_includes (c # cs) t = (prefix t (c # cs) \<or> js_includes cs t)"

definition endsWith :: "string \<Rightarrow> string \<Rightarrow> bool" where
  "endsWith s t = prefix (rev t) (rev s)"


section \<open>Unit and nutrition calculator\<close>

definition SERVING_CONVERSIONS :: "(string \<times> real) list" where
  "SERVING_CONVERSIONS =
     [(''cup'', 240), (''fl oz'', 30), (''tablespoon'', 15), (''tbsp'', 15),
      (''teaspoon'', 5), (''tsp'', 5),
      (''g'', 1), (''gram'', 1), (''kg'', 1000), (''kilogram'', 1000),
      (''oz'', 2835 / 100), (''ounce'', 2835 / 100), (''lb'', 45359 / 100),
      (''pound'', 45359 / 100),
      (''piece'', 100), (''slice'', 30), (''serving'', 100), (''whole'', 150),
      (''medium'', 120), (''large'', 180), (''small'', 80)]"

definition convertToGrams :: "real \<Rightarrow> string \<Rightarrow> jsnum" where
  "convertToGrams quantity unit =
     (let normalizedUnit = trim (toLowerCase unit);
          conversionFactor = getProperty SERVING_CONVERSIONS normalizedUnit
      in if truthy conversionFactor then js_times quantity conversionFactor
         else
           (let singularFactor = getProperty SERVING_CONVERSIONS (butlast normalizedUnit)
            in if endsWith normalizedUnit ''s'' \<and> truthy singularFactor
               then js_times quantity singularFactor
               else Num (quantity * 100)))"

definition estimateGramsFromDescription :: "string \<Rightarrow> real \<Rightarrow> real" where
  "estimateGramsFromDescription description quantity =
     (let lowerDesc = toLowerCase description in
      if js_includes lowerDesc ''whole'' \<or> js_includes lowerDesc ''entire'' then quantity * 150
      else if js_includes lowerDesc ''slice'' then quantity * 30
      else if js_includes lowerDesc ''piece'' \<or> js_includes lowerDesc ''chunk'' then quantity * 100
      else if js_includes lowerDesc ''cup'' then quantity * 240
      else if js_includes lowerDesc ''tablespoon'' \<or> js_includes lowerDesc ''tbsp'' then quantity * 15
      else if js_includes lowerDesc ''teaspoon'' \<or> js_includes lowerDesc ''tsp'' then quantity * 5
      else quantity * 100)"

text \<open>
  The fields of the stored food item that the calculator reads; the nullable columns are
  options.
\<close>

record FoodItem =
  calories :: real
  protein :: real
  carbs :: real
  fat :: real
  fiber :: "real option"
  sugar :: "real option"
  sodium :: "real option"

record ServingInfo =
  quantity :: real
  unit :: string
  grams :: real

record NutritionData =
  calories :: real
  protein :: real
  carbs :: real
  fat :: real
  fiber :: "real option"
  sugar :: "real option"
  sodium :: "real option"

text \<open>\<^verbatim>\<open>x ? x * scaleFactor : undefined\<close>\<close>

definition scaleOptional :: "real option \<Rightarrow> real \<Rightarrow> real option" where
  "scaleOptional x scaleFactor =
     (case x of Some v \<Rightarrow> (if v \<noteq> 0 then Some (v * scaleFactor) else None) | None \<Rightarrow> None)"

definition calculateNutritionForServing ::
    "'a FoodItem_scheme \<Rightarrow> ServingInfo \<Rightarrow> NutritionData" where
  "calculateNutritionForServing foodItem serving =
     (let scaleFactor = grams serving / 100 in
      \<lparr> NutritionData.calories = FoodItem.calories foodItem * scaleFactor,
        NutritionData.protein = FoodItem.protein foodItem * scaleFactor,
        NutritionData.carbs = FoodItem.carbs foodItem * scaleFactor,
        NutritionData.fat = FoodItem.fat foodItem * scaleFactor,
        NutritionData.fiber = scaleOptional (FoodItem.fiber foodItem) scaleFactor,
        NutritionData.sugar = scaleOptional (FoodItem.sugar foodItem) scaleFactor,
        NutritionData.sodium = scaleOptional (FoodItem.sodium foodItem) scaleFactor \<rparr>)"

record FoodItemWithServing = FoodItem +
  serving :: ServingInfo

text \<open>The accumulator of the two \<^verbatim>\<open>reduce\<close> calls: every field is a number.\<close>

record Totals =
  calories :: real
  protein :: real
  carbs :: real
  fat :: real
  fiber :: real
  sugar :: real
  sodium :: real

definition zeroTotals :: Totals where
  "zeroTotals = \<lparr> Totals.calories = 0, Totals.protein = 0, Totals.carbs = 0, Totals.fat = 0,
                  Totals.fiber = 0, Totals.sugar = 0, Totals.sodium = 0 \<rparr>"

definition addNutrition :: "Totals \<Rightarrow> NutritionData \<Rightarrow> Totals" where
  "addNutrition acc nutrition =
     \<lparr> Totals.calories = Totals.calories acc + NutritionData.calories nutrition,
       Totals.protein = Totals.protein acc + NutritionData.protein nutrition,
       Totals.carbs = Totals.carbs acc + NutritionData.carbs nutrition,
       Totals.fat = Totals.fat acc + NutritionData.fat nutrition,
       Totals.fiber = or_num (Totals.fiber acc) 0 + or_opt (NutritionData.fiber nutrition) 0,
       Totals.sugar = or_num (Totals.sugar acc) 0 + or_opt (NutritionData.sugar nutrition) 0,
       Totals.sodium = or_num (Totals.sodium acc) 0 + or_opt (NutritionData.sodium nutrition) 0 \<rparr>"

text \<open>\<^verbatim>\<open>Math.round\<close> rounds half up, which is \<^const>\<open>round\<close>.\<close>

definition roundTotals :: "Totals \<Rightarrow> NutritionData" where
  "roundTotals totals =
     \<lparr> NutritionData.calories = real_of_int (round (Totals.calories totals)),
       NutritionData.protein = real_of_int (round (Totals.protein totals * 10)) / 10,
       NutritionData.carbs = real_of_int (round (Totals.carbs totals * 10)) / 10,
       NutritionData.fat = real_of_int (round (Totals.fat totals * 10)) / 10,
       NutritionData.fiber =
         (if Totals.fiber totals > 0
          then Some (real_of_int (round (Totals.fiber totals * 10)) / 10) else None),
       NutritionData.sugar =
         (if Totals.sugar totals > 0
          then Some (real_of_int (round (Totals.sugar totals * 10)) / 10) else None),
       NutritionData.sodium =
         (if Totals.sodium totals > 0
          then Some (real_of_int (round (Totals.sodium totals))) else None) \<rparr>"

definition calculateTotalNutrition :: "FoodItemWithServing list \<Rightarrow> NutritionData" where
  "calculateTotalNutrition items =
     roundTotals
       (foldl (\<lambda>acc item. addNutrition acc (calculateNutritionForServing item (serving item)))
          zeroTotals items)"

record MacroPercentages =
  proteinPercent :: int
  carbsPercent :: int
  fatPercent :: int

definition calculateMacroPercentages :: "NutritionData \<Rightarrow> MacroPercentages" where
  "calculateMacroPercentages nutrition =
     (let totalCalories = or_num (NutritionData.calories nutrition) 1;
          proteinCalories = NutritionData.protein nutrition * 4;
          carbsCalories = NutritionData.carbs nutrition * 4;
          fatCalories = NutritionData.fat nutrition * 9
      in \<lparr> proteinPercent = round ((proteinCalories / totalCalories) * 100),
           carbsPercent = round ((carbsCalories / totalCalories) * 100),
           fatPercent = round ((fatCalories / totalCalories) * 100) \<rparr>)"


text \<open>
  The specification's wording of the keyword scan, with the keywords the program looks for:
  tiers in priority order, each with the weight of one unit, and 100 when no tier matches.
\<close>

definition keywordWeights :: "(string list \<times> real) list" where
  "keywordWeights =
     [([''whole'', ''entire''], 150), ([''slice''], 30), ([''piece'', ''chunk''], 100),
      ([''cup''], 240), ([''tablespoon'', ''tbsp''], 15), ([''teaspoon'', ''tsp''], 5)]"

definition firstKeywordWeight :: "string \<Rightarrow> real" where
  "firstKeywordWeight txt =
     (case find (\<lambda>(keywords, weight). list_ex (js_includes txt) keywords) keywordWeights of
        Some (keywords, weight) \<Rightarrow> weight
      | None \<Rightarrow> 100)"


section \<open>Evaluation metrics\<close>

definition normalizeFood :: "string \<Rightarrow> string" where
  "normalizeFood name = collapseWhitespace (trim (toLowerCase name))"

definition foodsMatch :: "string \<Rightarrow> string \<Rightarrow> bool" where
  "foodsMatch food1 food2 =
     (let norm1 = normalizeFood food1;
          norm2 = normalizeFood food2
      in if norm1 = norm2 then True
         else if js_includes norm1 norm2 \<or> js_includes norm2 norm1 then True
         else False)"

text \<open>
  The pass that finds the true positives. Its state is the counter \<^verbatim>\<open>truePositives\<close> and
  the set \<^verbatim>\<open>matchedActual\<close>; the body of the inner \<^verbatim>\<open>forEach\<close> is \<open>matchActual\<close>, the
  inner loop over the indexed ground-truth names is \<open>scanActualFoods\<close>, and the outer loop
  over the detected names is \<open>findTruePositives\<close>.
\<close>

definition matchActual :: "string \<Rightarrow> nat \<times> string \<Rightarrow> int \<times> nat set \<Rightarrow> int \<times> nat set" where
  "matchActual detected =
     (\<lambda>(index, actual) (truePositives, matchedActual).
        if index \<notin> matchedActual \<and> foodsMatch detected actual
        then (truePositives + 1, insert index matchedActual)
        else (truePositives, matchedActual))"

definition scanActualFoods :: "string list \<Rightarrow> string \<Rightarrow> int \<times> nat set \<Rightarrow> int \<times> nat set" where
  "scanActualFoods actualFoods detected state =
     fold (matchActual detected) (enumerate 0 actualFoods) state"

definition findTruePositives :: "string list \<Rightarrow> string list \<Rightarrow> int \<times> nat set" where
  "findTruePositives detectedFoods actualFoods =
     fold (scanActualFoods actualFoods) detectedFoods (0, {})"

text \<open>The local values of the food-detection part of \<^verbatim>\<open>calculateMetrics\<close>.\<close>

record FoodDetection =
  truePositives :: int
  falsePositives :: int
  falseNegatives :: int
  precision :: real
  recall :: real
  f1Score :: real
  foodDetectionAccuracy :: real

definition foodDetection :: "string list \<Rightarrow> string list \<Rightarrow> FoodDetection" where
  "foodDetection detectedFoods actualFoods =
     (let tp = fst (findTruePositives detectedFoods actualFoods);
          fp = int (length detectedFoods) - tp;
          fn = int (length actualFoods) - tp;
          p = (if tp > 0 then real_of_int tp / real_of_int (tp + fp) else 0);
          r = (if tp > 0 then real_of_int tp / real_of_int (tp + fn) else 0);
          f1 = (if p + r > 0 then (2 * p * r) / (p + r) else 0);
          acc = (if length actualFoods > 0 then real_of_int tp / real (length actualFoods)
                 else 0)
      in \<lparr> truePositives = tp, falsePositives = fp, falseNegatives = fn,
           precision = p, recall = r, f1Score = f1, foodDetectionAccuracy = acc \<rparr>)"

record DetectedFood =
  name :: string
  quantity :: real
  unit :: string
  confidence :: real

record AIAnalysisResult =
  foods :: "DetectedFood list"
  confidence :: real
  "notes" :: "string option"

record FoodGroundTruth =
  name :: string
  quantity :: real
  unit :: string
  calories :: real
  protein :: real
  carbs :: real
  fat :: real

record GroundTruth =
  foods :: "FoodGroundTruth list"
  totalCalories :: real
  totalProtein :: real
  totalCarbs :: real
  totalFat :: real

text \<open>
  One round of the quantity loop: the error pushed onto \<^verbatim>\<open>quantityErrors\<close> for a detected
  food, if any. \<^verbatim>\<open>convertToGrams\<close> does not throw, so the \<^verbatim>\<open>catch\<close> branch is never taken.
\<close>

definition quantityError :: "GroundTruth \<Rightarrow> DetectedFood \<Rightarrow> jsnum option" where
  "quantityError groundTruth aiFood =
     (case find (\<lambda>gtFood. foodsMatch (DetectedFood.name aiFood) (FoodGroundTruth.name gtFood))
             (GroundTruth.foods groundTruth) of
        None \<Rightarrow> None
      | Some matchingGT \<Rightarrow>
          (let aiGrams = convertToGrams (DetectedFood.quantity aiFood) (DetectedFood.unit aiFood);
               gtGrams = convertToGrams (FoodGroundTruth.quantity matchingGT)
                           (FoodGroundTruth.unit matchingGT)
           in if js_gt gtGrams (Num 0)
              then Some (js_div (js_abs (js_sub aiGrams gtGrams)) gtGrams)
              else None))"

text \<open>\<^verbatim>\<open>arr.reduce((a, b) => a + b, 0) / arr.length\<close>\<close>

definition avg :: "jsnum list \<Rightarrow> jsnum" where
  "avg arr = js_div (foldl js_add (Num 0) arr) (Num (real (length arr)))"

record AiTotals =
  calories :: real
  protein :: real
  carbs :: real
  fat :: real

record NutritionAccuracy =
  calorieAccuracy :: real
  proteinAccuracy :: real
  carbsAccuracy :: real
  fatAccuracy :: real

definition calculateNutritionAccuracy :: "AiTotals \<Rightarrow> GroundTruth \<Rightarrow> NutritionAccuracy" where
  "calculateNutritionAccuracy aiTotals groundTruth =
     (let calorieError =
            (if totalCalories groundTruth > 0
             then \<bar>AiTotals.calories aiTotals - totalCalories groundTruth\<bar>
                    / totalCalories groundTruth
             else 0);
          proteinError =
            (if totalProtein groundTruth > 0
             then \<bar>AiTotals.protein aiTotals - totalProtein groundTruth\<bar>
                    / totalProtein groundTruth
             else 0);
          carbsError =
            (if totalCarbs groundTruth > 0
             then \<bar>AiTotals.carbs aiTotals - totalCarbs groundTruth\<bar> / totalCarbs groundTruth
             else 0);
          fatError =
            (if totalFat groundTruth > 0
             then \<bar>AiTotals.fat aiTotals - totalFat groundTruth\<bar> / totalFat groundTruth
             else 0)
      in \<lparr> calorieAccuracy = max 0 (1 - calorieError),
           proteinAccuracy = max 0 (1 - proteinError),
           carbsAccuracy = max 0 (1 - carbsError),
           fatAccuracy = max 0 (1 - fatError) \<rparr>)"

record EvaluationMetrics =
  precision :: jsnum
  recall :: jsnum
  f1Score :: jsnum
  foodDetectionAccuracy :: jsnum
  quantityAccuracy :: jsnum
  avgQuantityError :: jsnum
  calorieAccuracy :: jsnum
  proteinAccuracy :: jsnum
  carbsAccuracy :: jsnum
  fatAccuracy :: jsnum
  overallScore :: jsnum

text \<open>
  \<^verbatim>\<open>calculateMetrics\<close>. The unused local \<^verbatim>\<open>aiTotals\<close> and the \<^verbatim>\<open>forEach\<close> with an empty
  body are left out. The declaration
  \<^verbatim>\<open>const fatAccuracy = Math.max(0, 1 - fatAccuracy)\<close> reads its own binding while that
  binding is still uninitialised.
\<close>

definition calculateMetrics :: "AIAnalysisResult \<Rightarrow> GroundTruth \<Rightarrow> js_error + EvaluationMetrics" where
  "calculateMetrics aiResult groundTruth =
     (let detectedFoods = map (\<lambda>f. normalizeFood (DetectedFood.name f)) (AIAnalysisResult.foods aiResult);
          actualFoods = map (\<lambda>f. normalizeFood (FoodGroundTruth.name f)) (GroundTruth.foods groundTruth);
          detection = foodDetection detectedFoods actualFoods;
          quantityErrors = List.map_filter (quantityError groundTruth) (AIAnalysisResult.foods aiResult);
          avgQuantityError = (if length quantityErrors > 0 then avg quantityErrors else Num 1);
          quantityAccuracy = js_max (Num 0) (js_sub (Num 1) avgQuantityError);
          calorieError = Num 0;
          proteinError = Num 0;
          carbsError = Num 0;
          fatError = Num 0;
          calorieAccuracy = js_max (Num 0) (js_sub (Num 1) calorieError);
          proteinAccuracy = js_max (Num 0) (js_sub (Num 1) proteinError);
          carbsAccuracy = js_max (Num 0) (js_sub (Num 1) carbsError);
          fatAccuracy_binding = (Uninitialized :: jsnum binding)
      in case readBinding fatAccuracy_binding of
           Inl e \<Rightarrow> Inl e
         | Inr fatAccuracy_read \<Rightarrow>
             (let fatAccuracy = js_max (Num 0) (js_sub (Num 1) fatAccuracy_read);
                  overallScore =
                    js_add
                      (js_add (js_mul (Num (FoodDetection.f1Score detection)) (Num (4 / 10)))
                              (js_mul quantityAccuracy (Num (3 / 10))))
                      (js_mul calorieAccuracy (Num (3 / 10)))
              in Inr \<lparr> precision = Num (FoodDetection.precision detection),
                       recall = Num (FoodDetection.recall detection),
                       f1Score = Num (FoodDetection.f1Score detection),
                       foodDetectionAccuracy = Num (FoodDetection.foodDetectionAccuracy detection),
                       quantityAccuracy = quantityAccuracy,
                       avgQuantityError = avgQuantityError,
                       calorieAccuracy = calorieAccuracy,
                       proteinAccuracy = proteinAccuracy,
                       carbsAccuracy = carbsAccuracy,
                       fatAccuracy = fatAccuracy,
                       overallScore = overallScore \<rparr>))"

definition aggregateMetrics :: "EvaluationMetrics list \<Rightarrow> EvaluationMetrics" where
  "aggregateMetrics results =
     \<lparr> precision = avg (map precision results),
       recall = avg (map recall results),
       f1Score = avg (map f1Score results),
       foodDetectionAccuracy = avg (map foodDetectionAccuracy results),
       quantityAccuracy = avg (map quantityAccuracy results),
       avgQuantityError = avg (map avgQuantityError results),
       calorieAccuracy = avg (map calorieAccuracy results),
       proteinAccuracy = avg (map proteinAccuracy results),
       carbsAccuracy = avg (map carbsAccuracy results),
       fatAccuracy = avg (map fatAccuracy results),
       overallScore = avg (map overallScore results) \<rparr>"

section \<open>Evaluation of the string and lookup functions\<close>

lemmas string_eval = trim_def toLowerCase_def isWhitespace_def endsWith_def

lemmas lookup_eval = getProperty_def SERVING_CONVERSIONS_def Object_prototype_properties_def

lemmas pass_eval =
  findTruePositives_def scanActualFoods_def matchActual_def foodsMatch_def normalizeFood_def

lemma js_includes_empty: "js_includes s []"
  by (cases s) simp_all

lemma normalizeFood_Nil: "normalizeFood [] = []"
  by (simp add: normalizeFood_def string_eval)

lemma foodsMatch_empty: "normalizeFood food1 = [] \<Longrightarrow> foodsMatch food1 food2"
  by (simp add: foodsMatch_def js_includes_empty)


section \<open>Unit conversion\<close>

text \<open>Every key of the table, and every key followed by an "s", is converted by its factor.\<close>

lemma convertToGrams_table:
  assumes "(u, f) \<in> set SERVING_CONVERSIONS"
  shows "convertToGrams q u = Num (q * f)"
  using assms unfolding SERVING_CONVERSIONS_def
  by (auto simp: convertToGrams_def lookup_eval string_eval)

lemma convertToGrams_plural:
  assumes "(u, f) \<in> set SERVING_CONVERSIONS"
  shows "convertToGrams q (u @ ''s'') = Num (q * f)"
  using assms unfolding SERVING_CONVERSIONS_def
  by (auto simp: convertToGrams_def lookup_eval string_eval)

lemma convertToGrams_examples:
  "convertToGrams 2 '' Cups '' = Num 480 \<and> convertToGrams 2 ''zorbleflax'' = Num 200
   \<and> convertToGrams 2 ''OZ'' = Num (567 / 10)"
  by (simp add: convertToGrams_def lookup_eval string_eval)

text \<open>
  C4. The claim: a unit of the table is converted by its factor, every other unit gives
  \<open>quantity \<times> 100\<close>, and a quantity of 0 gives 0 for every unit. The unit
  \<^verbatim>\<open>constructor\<close> is not a key of the table, yet the lookup on the object literal finds the
  inherited \<^verbatim>\<open>Object.prototype.constructor\<close>, which is truthy, and the product with it is
  \<^verbatim>\<open>NaN\<close>: neither 200 for quantity 2 nor 0 for quantity 0. The same happens for the
  plural \<^verbatim>\<open>constructors\<close> through the singular retry.
\<close>

theorem convertToGrams_inherited_property:
  "map_of SERVING_CONVERSIONS ''constructor'' = None
   \<and> convertToGrams 2 ''constructor'' = NaN
   \<and> convertToGrams 2 ''constructor'' \<noteq> Num (2 * 100)
   \<and> convertToGrams 0 ''constructor'' \<noteq> Num 0
   \<and> convertToGrams 2 ''constructors'' = NaN"
  by (simp add: convertToGrams_def lookup_eval string_eval)


section \<open>Estimating grams from a description\<close>

text \<open>
  C7, as stated: the text \<^verbatim>\<open>entire\<close> contains none of the keywords that the claim lists, so
  the claim gives \<open>quantity \<times> 100\<close>; the program gives \<open>quantity \<times> 150\<close>.
\<close>

theorem estimateGrams_entire_counterexample:
  "\<not> list_ex (js_includes ''entire'')
       [''whole'', ''slice'', ''piece'', ''chunk'', ''cup'', ''tablespoon'', ''tbsp'',
        ''teaspoon'', ''tsp'']
   \<and> estimateGramsFromDescription ''entire'' 1 = 150
   \<and> estimateGramsFromDescription ''entire'' 1 \<noteq> 1 * 100"
  by (simp add: estimateGramsFromDescription_def toLowerCase_def)

text \<open>
  C7, amended: for every text and quantity the result is the quantity times the weight of the
  first tier, in the order "whole"/"entire" 150, "slice" 30, "piece"/"chunk" 100, "cup" 240,
  "tablespoon"/"tbsp" 15, "teaspoon"/"tsp" 5, one of whose keywords occurs in the lower-cased
  text, and the quantity times 100 when no keyword occurs.
\<close>

theorem estimateGrams_first_keyword:
  "estimateGramsFromDescription description q
     = q * firstKeywordWeight (toLowerCase description)"
  by (simp add: estimateGramsFromDescription_def firstKeywordWeight_def keywordWeights_def
      Let_def)

theorem estimateGrams_first_keyword_witness:
  "estimateGramsFromDescription ''Two Slices of a WHOLE pie'' 2 = 300
   \<and> estimateGramsFromDescription ''a handful'' 3 = 300"
  using estimateGrams_first_keyword[of "''Two Slices of a WHOLE pie''" 2]
    estimateGrams_first_keyword[of "''a handful''" 3]
  by (simp add: firstKeywordWeight_def keywordWeights_def toLowerCase_def)


section \<open>Macronutrient percentages\<close>

text \<open>
  C6, as stated: with 0 calories and 10 g of protein the denominator is 1 and the protein
  percentage is 4000, not 0.
\<close>

theorem macroPercentages_zero_calories_counterexample:
  "NutritionData.calories
     \<lparr> NutritionData.calories = 0, protein = 10, carbs = 0, fat = 0,
       fiber = None, sugar = None, sodium = None \<rparr> = 0
   \<and> proteinPercent (calculateMacroPercentages
       \<lparr> NutritionData.calories = 0, protein = 10, carbs = 0, fat = 0,
         fiber = None, sugar = None, sodium = None \<rparr>) = 4000"
  by (simp add: calculateMacroPercentages_def or_num_def)

text \<open>
  C6, amended: for every profile whose calories value is 0 the denominator is 1, so the
  percentages are the rounded values of protein \<open>\<times>\<close> 4 \<open>\<times>\<close> 100, carbs \<open>\<times>\<close> 4 \<open>\<times>\<close> 100 and
  fat \<open>\<times>\<close> 9 \<open>\<times>\<close> 100; they are all 0 when protein, carbs and fat are 0 as well.
\<close>

theorem macroPercentages_zero_calories:
  assumes "NutritionData.calories nutrition = 0"
  shows "or_num (NutritionData.calories nutrition) 1 = 1
    \<and> calculateMacroPercentages nutrition
        = \<lparr> proteinPercent = round (NutritionData.protein nutrition * 4 / 1 * 100),
            carbsPercent = round (NutritionData.carbs nutrition * 4 / 1 * 100),
            fatPercent = round (NutritionData.fat nutrition * 9 / 1 * 100) \<rparr>
    \<and> (NutritionData.protein nutrition = 0 \<and> NutritionData.carbs nutrition = 0
         \<and> NutritionData.fat nutrition = 0
        \<longrightarrow> calculateMacroPercentages nutrition
              = \<lparr> proteinPercent = 0, carbsPercent = 0, fatPercent = 0 \<rparr>)"
  using assms by (simp add: calculateMacroPercentages_def or_num_def)

theorem macroPercentages_zero_calories_witness:
  "calculateMacroPercentages
     \<lparr> NutritionData.calories = 0, protein = 0, carbs = 0, fat = 0,
       fiber = None, sugar = None, sodium = None \<rparr>
     = \<lparr> proteinPercent = 0, carbsPercent = 0, fatPercent = 0 \<rparr>"
  using macroPercentages_zero_calories[of
      "\<lparr> NutritionData.calories = 0, protein = 0, carbs = 0, fat = 0,
         fiber = None, sugar = None, sodium = None \<rparr>"]
  by simp

lemma macroPercentages_example:
  "calculateMacroPercentages
     \<lparr> NutritionData.calories = 580, protein = 50, carbs = 50, fat = 20,
       fiber = None, sugar = None, sodium = None \<rparr>
     = \<lparr> proteinPercent = 34, carbsPercent = 34, fatPercent = 31 \<rparr>"
  by (simp add: calculateMacroPercentages_def or_num_def round_def)


section \<open>Optional nutrients\<close>

lemma scaleOptional_zero: "scaleOptional (Some 0) scaleFactor = None"
  by (simp add: scaleOptional_def)

lemma foldl_fiber:
  "Totals.fiber (foldl (\<lambda>acc item. addNutrition acc
        (calculateNutritionForServing item (serving item))) acc items)
   = Totals.fiber acc + (\<Sum>item\<leftarrow>items. or_opt
        (NutritionData.fiber (calculateNutritionForServing item (serving item))) 0)"
  by (induction items arbitrary: acc) (simp_all add: addNutrition_def or_num_def)

lemma foldl_sugar:
  "Totals.sugar (foldl (\<lambda>acc item. addNutrition acc
        (calculateNutritionForServing item (serving item))) acc items)
   = Totals.sugar acc + (\<Sum>item\<leftarrow>items. or_opt
        (NutritionData.sugar (calculateNutritionForServing item (serving item))) 0)"
  by (induction items arbitrary: acc) (simp_all add: addNutrition_def or_num_def)

lemma foldl_sodium:
  "Totals.sodium (foldl (\<lambda>acc item. addNutrition acc
        (calculateNutritionForServing item (serving item))) acc items)
   = Totals.sodium acc + (\<Sum>item\<leftarrow>items. or_opt
        (NutritionData.sodium (calculateNutritionForServing item (serving item))) 0)"
  by (induction items arbitrary: acc) (simp_all add: addNutrition_def or_num_def)

lemma total_fiber_absent:
  assumes "(\<Sum>item\<leftarrow>items. or_opt
        (NutritionData.fiber (calculateNutritionForServing item (serving item))) 0) = 0"
  shows "NutritionData.fiber (calculateTotalNutrition items) = None"
  using assms
  by (simp add: calculateTotalNutrition_def roundTotals_def foldl_fiber zeroTotals_def)

lemma total_sugar_absent:
  assumes "(\<Sum>item\<leftarrow>items. or_opt
        (NutritionData.sugar (calculateNutritionForServing item (serving item))) 0) = 0"
  shows "NutritionData.sugar (calculateTotalNutrition items) = None"
  using assms
  by (simp add: calculateTotalNutrition_def roundTotals_def foldl_sugar zeroTotals_def)

lemma total_sodium_absent:
  assumes "(\<Sum>item\<leftarrow>items. or_opt
        (NutritionData.sodium (calculateNutritionForServing item (serving item))) 0) = 0"
  shows "NutritionData.sodium (calculateTotalNutrition items) = None"
  using assms
  by (simp add: calculateTotalNutrition_def roundTotals_def foldl_sodium zeroTotals_def)

lemma scaleOptional_zero_iff:
  "(scaleOptional x scaleFactor = Some 0) = (x \<noteq> None \<and> x \<noteq> Some 0 \<and> scaleFactor = 0)"
  by (cases x) (auto simp: scaleOptional_def)

lemma serving_fiber_zero_iff:
  "(NutritionData.fiber (calculateNutritionForServing f s') = Some 0)
     = (FoodItem.fiber f \<noteq> None \<and> FoodItem.fiber f \<noteq> Some 0 \<and> grams s' = 0)"
  by (simp add: calculateNutritionForServing_def scaleOptional_zero_iff Let_def)

lemma serving_sugar_zero_iff:
  "(NutritionData.sugar (calculateNutritionForServing f s') = Some 0)
     = (FoodItem.sugar f \<noteq> None \<and> FoodItem.sugar f \<noteq> Some 0 \<and> grams s' = 0)"
  by (simp add: calculateNutritionForServing_def scaleOptional_zero_iff Let_def)

lemma serving_sodium_zero_iff:
  "(NutritionData.sodium (calculateNutritionForServing f s') = Some 0)
     = (FoodItem.sodium f \<noteq> None \<and> FoodItem.sodium f \<noteq> Some 0 \<and> grams s' = 0)"
  by (simp add: calculateNutritionForServing_def scaleOptional_zero_iff Let_def)

lemma total_fiber_zero_iff:
  "(NutritionData.fiber (calculateTotalNutrition items) = Some 0)
     = (0 < (\<Sum>item\<leftarrow>items. or_opt
              (NutritionData.fiber (calculateNutritionForServing item (serving item))) 0)
        \<and> round ((\<Sum>item\<leftarrow>items. or_opt
              (NutritionData.fiber (calculateNutritionForServing item (serving item))) 0) * 10) = 0)"
  by (simp add: calculateTotalNutrition_def roundTotals_def foldl_fiber zeroTotals_def)

lemma total_sugar_zero_iff:
  "(NutritionData.sugar (calculateTotalNutrition items) = Some 0)
     = (0 < (\<Sum>item\<leftarrow>items. or_opt
              (NutritionData.sugar (calculateNutritionForServing item (serving item))) 0)
        \<and> round ((\<Sum>item\<leftarrow>items. or_opt
              (NutritionData.sugar (calculateNutritionForServing item (serving item))) 0) * 10) = 0)"
  by (simp add: calculateTotalNutrition_def roundTotals_def foldl_sugar zeroTotals_def)

lemma total_sodium_zero_iff:
  "(NutritionData.sodium (calculateTotalNutrition items) = Some 0)
     = (0 < (\<Sum>item\<leftarrow>items. or_opt
              (NutritionData.sodium (calculateNutritionForServing item (serving item))) 0)
        \<and> round (\<Sum>item\<leftarrow>items. or_opt
              (NutritionData.sodium (calculateNutritionForServing item (serving item))) 0) = 0)"
  by (simp add: calculateTotalNutrition_def roundTotals_def foldl_sodium zeroTotals_def)

text \<open>
  C9, as stated: the closing clause says that an output never holds the number 0 for an
  optional nutrient. A fiber value of 2.5 with a serving of 0 grams gives the fiber 0 in
  \<^verbatim>\<open>calculateNutritionForServing\<close>; a fiber value of 0.04 at 100 grams gives the total
  fiber 0 in \<^verbatim>\<open>calculateTotalNutrition\<close>, also next to an entry whose fiber is 0.
\<close>

theorem optional_nutrient_zero_output_counterexample:
  "NutritionData.fiber (calculateNutritionForServing
      \<lparr> FoodItem.calories = 52, protein = 3 / 10, carbs = 14, fat = 2 / 10,
        fiber = Some (5 / 2), sugar = None, sodium = None \<rparr>
      \<lparr> ServingInfo.quantity = 0, unit = ''g'', grams = 0 \<rparr>) = Some 0
   \<and> NutritionData.fiber (calculateTotalNutrition
      [\<lparr> FoodItem.calories = 52, protein = 3 / 10, carbs = 14, fat = 2 / 10,
         fiber = Some (4 / 100), sugar = None, sodium = None,
         serving = \<lparr> ServingInfo.quantity = 100, unit = ''g'', grams = 100 \<rparr> \<rparr>]) = Some 0
   \<and> NutritionData.fiber (calculateTotalNutrition
      [\<lparr> FoodItem.calories = 52, protein = 3 / 10, carbs = 14, fat = 2 / 10,
         fiber = Some 0, sugar = None, sodium = None,
         serving = \<lparr> ServingInfo.quantity = 100, unit = ''g'', grams = 100 \<rparr> \<rparr>,
       \<lparr> FoodItem.calories = 52, protein = 3 / 10, carbs = 14, fat = 2 / 10,
         fiber = Some (4 / 100), sugar = None, sodium = None,
         serving = \<lparr> ServingInfo.quantity = 100, unit = ''g'', grams = 100 \<rparr> \<rparr>]) = Some 0"
  by (simp add: calculateTotalNutrition_def roundTotals_def zeroTotals_def addNutrition_def
      calculateNutritionForServing_def scaleOptional_def or_opt_def or_num_def round_def)

text \<open>
  C9, amended. In \<^verbatim>\<open>calculateNutritionForServing\<close> an optional field that is present with
  value 0 in the food item is absent in the result; in \<^verbatim>\<open>calculateTotalNutrition\<close> an
  optional field whose sum over the entries is 0 is absent in the result; so a field that is
  0 in the food item, or 0 in every entry, is never the number 0 in the output. The number 0
  is the output of \<^verbatim>\<open>calculateNutritionForServing\<close> exactly when a present non-zero value
  is scaled by a serving of 0 grams, and of \<^verbatim>\<open>calculateTotalNutrition\<close> exactly when a
  positive sum rounds to 0.
\<close>

theorem optional_zero_is_absent:
  "(FoodItem.fiber foodItem = Some 0
      \<longrightarrow> NutritionData.fiber (calculateNutritionForServing foodItem s) = None)
   \<and> (FoodItem.sugar foodItem = Some 0
      \<longrightarrow> NutritionData.sugar (calculateNutritionForServing foodItem s) = None)
   \<and> (FoodItem.sodium foodItem = Some 0
      \<longrightarrow> NutritionData.sodium (calculateNutritionForServing foodItem s) = None)
   \<and> ((\<Sum>item\<leftarrow>items. or_opt
          (NutritionData.fiber (calculateNutritionForServing item (serving item))) 0) = 0
      \<longrightarrow> NutritionData.fiber (calculateTotalNutrition items) = None)
   \<and> ((\<Sum>item\<leftarrow>items. or_opt
          (NutritionData.sugar (calculateNutritionForServing item (serving item))) 0) = 0
      \<longrightarrow> NutritionData.sugar (calculateTotalNutrition items) = None)
   \<and> ((\<Sum>item\<leftarrow>items. or_opt
          (NutritionData.sodium (calculateNutritionForServing item (serving item))) 0) = 0
      \<longrightarrow> NutritionData.sodium (calculateTotalNutrition items) = None)
   \<and> ((\<forall>item \<in> set items. FoodItem.fiber item = Some 0)
      \<longrightarrow> NutritionData.fiber (calculateTotalNutrition items) \<noteq> Some 0)
   \<and> ((\<forall>item \<in> set items. FoodItem.sugar item = Some 0)
      \<longrightarrow> NutritionData.sugar (calculateTotalNutrition items) \<noteq> Some 0)
   \<and> ((\<forall>item \<in> set items. FoodItem.sodium item = Some 0)
      \<longrightarrow> NutritionData.sodium (calculateTotalNutrition items) \<noteq> Some 0)
   \<and> (NutritionData.fiber (calculateNutritionForServing foodItem s) = Some 0)
       = (FoodItem.fiber foodItem \<noteq> None \<and> FoodItem.fiber foodItem \<noteq> Some 0
          \<and> grams s = 0)
   \<and> (NutritionData.sugar (calculateNutritionForServing foodItem s) = Some 0)
       = (FoodItem.sugar foodItem \<noteq> None \<and> FoodItem.sugar foodItem \<noteq> Some 0
          \<and> grams s = 0)
   \<and> (NutritionData.sodium (calculateNutritionForServing foodItem s) = Some 0)
       = (FoodItem.sodium foodItem \<noteq> None \<and> FoodItem.sodium foodItem \<noteq> Some 0
          \<and> grams s = 0)
   \<and> (NutritionData.fiber (calculateTotalNutrition items) = Some 0)
       = (0 < (\<Sum>item\<leftarrow>items. or_opt
                (NutritionData.fiber (calculateNutritionForServing item (serving item))) 0)
          \<and> round ((\<Sum>item\<leftarrow>items. or_opt
                (NutritionData.fiber (calculateNutritionForServing item (serving item))) 0)
                * 10) = 0)
   \<and> (NutritionData.sugar (calculateTotalNutrition items) = Some 0)
       = (0 < (\<Sum>item\<leftarrow>items. or_opt
                (NutritionData.sugar (calculateNutritionForServing item (serving item))) 0)
          \<and> round ((\<Sum>item\<leftarrow>items. or_opt
                (NutritionData.sugar (calculateNutritionForServing item (serving item))) 0)
                * 10) = 0)
   \<and> (NutritionData.sodium (calculateTotalNutrition items) = Some 0)
       = (0 < (\<Sum>item\<leftarrow>items. or_opt
                (NutritionData.sodium (calculateNutritionForServing item (serving item))) 0)
          \<and> round (\<Sum>item\<leftarrow>items. or_opt
                (NutritionData.sodium (calculateNutritionForServing item (serving item))) 0)
              = 0)"
proof -
  have one: "NutritionData.fiber (calculateNutritionForServing f s') = None"
    if "FoodItem.fiber f = Some 0" for f :: "'b FoodItem_scheme" and s'
    using that by (simp add: calculateNutritionForServing_def scaleOptional_zero Let_def)
  have two: "NutritionData.sugar (calculateNutritionForServing f s') = None"
    if "FoodItem.sugar f = Some 0" for f :: "'b FoodItem_scheme" and s'
    using that by (simp add: calculateNutritionForServing_def scaleOptional_zero Let_def)
  have three: "NutritionData.sodium (calculateNutritionForServing f s') = None"
    if "FoodItem.sodium f = Some 0" for f :: "'b FoodItem_scheme" and s'
    using that by (simp add: calculateNutritionForServing_def scaleOptional_zero Let_def)
  have all_fiber: "NutritionData.fiber (calculateTotalNutrition items) = None"
    if "\<forall>item \<in> set items. FoodItem.fiber item = Some 0"
  proof (rule total_fiber_absent)
    have "or_opt (NutritionData.fiber (calculateNutritionForServing item (serving item))) 0 = 0"
      if "item \<in> set items" for item
      using that \<open>\<forall>item \<in> set items. FoodItem.fiber item = Some 0\<close>
      by (simp add: calculateNutritionForServing_def scaleOptional_zero or_opt_def Let_def)
    then show "(\<Sum>item\<leftarrow>items. or_opt
          (NutritionData.fiber (calculateNutritionForServing item (serving item))) 0) = 0"
      by (induction items) simp_all
  qed
  have all_sugar: "NutritionData.sugar (calculateTotalNutrition items) = None"
    if "\<forall>item \<in> set items. FoodItem.sugar item = Some 0"
  proof (rule total_sugar_absent)
    have "or_opt (NutritionData.sugar (calculateNutritionForServing item (serving item))) 0 = 0"
      if "item \<in> set items" for item
      using that \<open>\<forall>item \<in> set items. FoodItem.sugar item = Some 0\<close>
      by (simp add: calculateNutritionForServing_def scaleOptional_zero or_opt_def Let_def)
    then show "(\<Sum>item\<leftarrow>items. or_opt
          (NutritionData.sugar (calculateNutritionForServing item (serving item))) 0) = 0"
      by (induction items) simp_all
  qed
  have all_sodium: "NutritionData.sodium (calculateTotalNutrition items) = None"
    if "\<forall>item \<in> set items. FoodItem.sodium item = Some 0"
  proof (rule total_sodium_absent)
    have "or_opt (NutritionData.sodium (calculateNutritionForServing item (serving item))) 0 = 0"
      if "item \<in> set items" for item
      using that \<open>\<forall>item \<in> set items. FoodItem.sodium item = Some 0\<close>
      by (simp add: calculateNutritionForServing_def scaleOptional_zero or_opt_def Let_def)
    then show "(\<Sum>item\<leftarrow>items. or_opt
          (NutritionData.sodium (calculateNutritionForServing item (serving item))) 0) = 0"
      by (induction items) simp_all
  qed
  show ?thesis
  proof (intro conjI impI)
    show "NutritionData.fiber (calculateTotalNutrition items) \<noteq> Some 0"
      if "\<forall>item \<in> set items. FoodItem.fiber item = Some 0"
      using all_fiber[OF that] by simp
    show "NutritionData.sugar (calculateTotalNutrition items) \<noteq> Some 0"
      if "\<forall>item \<in> set items. FoodItem.sugar item = Some 0"
      using all_sugar[OF that] by simp
    show "NutritionData.sodium (calculateTotalNutrition items) \<noteq> Some 0"
      if "\<forall>item \<in> set items. FoodItem.sodium item = Some 0"
      using all_sodium[OF that] by simp
  qed (rule one two three total_fiber_absent total_sugar_absent total_sodium_absent
        serving_fiber_zero_iff serving_sugar_zero_iff serving_sodium_zero_iff
        total_fiber_zero_iff total_sugar_zero_iff total_sodium_zero_iff; assumption?)+
qed

theorem optional_zero_is_absent_witness:
  "NutritionData.fiber (calculateNutritionForServing
      \<lparr> FoodItem.calories = 52, protein = 3 / 10, carbs = 14, fat = 2 / 10,
        fiber = Some 0, sugar = Some 0, sodium = Some 0,
        serving = \<lparr> ServingInfo.quantity = 1, unit = ''cup'', grams = 240 \<rparr> \<rparr>
      \<lparr> ServingInfo.quantity = 1, unit = ''cup'', grams = 240 \<rparr>) = None
   \<and> NutritionData.fiber (calculateTotalNutrition
      [\<lparr> FoodItem.calories = 52, protein = 3 / 10, carbs = 14, fat = 2 / 10,
         fiber = Some 0, sugar = Some 0, sodium = Some 0,
         serving = \<lparr> ServingInfo.quantity = 1, unit = ''cup'', grams = 240 \<rparr> \<rparr>]) = None
   \<and> NutritionData.sugar (calculateTotalNutrition
      [\<lparr> FoodItem.calories = 52, protein = 3 / 10, carbs = 14, fat = 2 / 10,
         fiber = Some 0, sugar = Some 0, sodium = Some 0,
         serving = \<lparr> ServingInfo.quantity = 1, unit = ''cup'', grams = 240 \<rparr> \<rparr>]) = None
   \<and> NutritionData.sodium (calculateTotalNutrition
      [\<lparr> FoodItem.calories = 52, protein = 3 / 10, carbs = 14, fat = 2 / 10,
         fiber = Some 0, sugar = Some 0, sodium = Some 0,
         serving = \<lparr> ServingInfo.quantity = 1, unit = ''cup'', grams = 240 \<rparr> \<rparr>]) = None"
  using optional_zero_is_absent[of
      "\<lparr> FoodItem.calories = 52, protein = 3 / 10, carbs = 14, fat = 2 / 10,
         fiber = Some 0, sugar = Some 0, sodium = Some 0,
         serving = \<lparr> ServingInfo.quantity = 1, unit = ''cup'', grams = 240 \<rparr> \<rparr>"
      "\<lparr> ServingInfo.quantity = 1, unit = ''cup'', grams = 240 \<rparr>"
      "[\<lparr> FoodItem.calories = 52, protein = 3 / 10, carbs = 14, fat = 2 / 10,
         fiber = Some 0, sugar = Some 0, sodium = Some 0,
         serving = \<lparr> ServingInfo.quantity = 1, unit = ''cup'', grams = 240 \<rparr> \<rparr>]"]
  by (simp add: calculateNutritionForServing_def scaleOptional_def or_opt_def)


section \<open>Nutrition accuracy\<close>

text \<open>
  C5. For each of calories, protein, carbs and fat the accuracy is \<open>max 0 (1 - error)\<close>,
  where the error is \<open>|ai - gt| / gt\<close> when the ground-truth total is positive and 0 when
  it is 0; AI calories of 500 against a ground truth of 400 give a calorie accuracy of 0.75.
\<close>

theorem nutritionAccuracy_relative_error:
  "(totalCalories groundTruth > 0 \<longrightarrow>
      NutritionAccuracy.calorieAccuracy (calculateNutritionAccuracy aiTotals groundTruth)
        = max 0 (1 - \<bar>AiTotals.calories aiTotals - totalCalories groundTruth\<bar>
                      / totalCalories groundTruth))
   \<and> (totalCalories groundTruth = 0 \<longrightarrow>
      NutritionAccuracy.calorieAccuracy (calculateNutritionAccuracy aiTotals groundTruth)
        = max 0 (1 - 0))
   \<and> (totalProtein groundTruth > 0 \<longrightarrow>
      NutritionAccuracy.proteinAccuracy (calculateNutritionAccuracy aiTotals groundTruth)
        = max 0 (1 - \<bar>AiTotals.protein aiTotals - totalProtein groundTruth\<bar>
                      / totalProtein groundTruth))
   \<and> (totalProtein groundTruth = 0 \<longrightarrow>
      NutritionAccuracy.proteinAccuracy (calculateNutritionAccuracy aiTotals groundTruth)
        = max 0 (1 - 0))
   \<and> (totalCarbs groundTruth > 0 \<longrightarrow>
      NutritionAccuracy.carbsAccuracy (calculateNutritionAccuracy aiTotals groundTruth)
        = max 0 (1 - \<bar>AiTotals.carbs aiTotals - totalCarbs groundTruth\<bar>
                      / totalCarbs groundTruth))
   \<and> (totalCarbs groundTruth = 0 \<longrightarrow>
      NutritionAccuracy.carbsAccuracy (calculateNutritionAccuracy aiTotals groundTruth)
        = max 0 (1 - 0))
   \<and> (totalFat groundTruth > 0 \<longrightarrow>
      NutritionAccuracy.fatAccuracy (calculateNutritionAccuracy aiTotals groundTruth)
        = max 0 (1 - \<bar>AiTotals.fat aiTotals - totalFat groundTruth\<bar>
                      / totalFat groundTruth))
   \<and> (totalFat groundTruth = 0 \<longrightarrow>
      NutritionAccuracy.fatAccuracy (calculateNutritionAccuracy aiTotals groundTruth)
        = max 0 (1 - 0))
   \<and> (AiTotals.calories aiTotals = 500 \<and> totalCalories groundTruth = 400 \<longrightarrow>
      NutritionAccuracy.calorieAccuracy (calculateNutritionAccuracy aiTotals groundTruth)
        = 75 / 100)"
  by (simp add: calculateNutritionAccuracy_def Let_def)

theorem nutritionAccuracy_relative_error_witness:
  "calculateNutritionAccuracy
      \<lparr> AiTotals.calories = 500, protein = 30, carbs = 90, fat = 5 \<rparr>
      \<lparr> GroundTruth.foods = [], totalCalories = 400, totalProtein = 40, totalCarbs = 30,
        totalFat = 10 \<rparr>
     = \<lparr> NutritionAccuracy.calorieAccuracy = 3 / 4, proteinAccuracy = 3 / 4,
         carbsAccuracy = 0, fatAccuracy = 1 / 2 \<rparr>
   \<and> calculateNutritionAccuracy
      \<lparr> AiTotals.calories = 500, protein = 30, carbs = 90, fat = 5 \<rparr>
      \<lparr> GroundTruth.foods = [], totalCalories = 0, totalProtein = 0, totalCarbs = 0,
        totalFat = 0 \<rparr>
     = \<lparr> NutritionAccuracy.calorieAccuracy = 1, proteinAccuracy = 1,
         carbsAccuracy = 1, fatAccuracy = 1 \<rparr>"
proof -
  have eq: "r = \<lparr> NutritionAccuracy.calorieAccuracy = a, proteinAccuracy = b,
                  carbsAccuracy = c, fatAccuracy = d \<rparr>"
    if "NutritionAccuracy.calorieAccuracy r = a" "NutritionAccuracy.proteinAccuracy r = b"
      "NutritionAccuracy.carbsAccuracy r = c" "NutritionAccuracy.fatAccuracy r = d"
    for r :: NutritionAccuracy and a b c d
    using that by (cases r) simp
  show ?thesis
    using nutritionAccuracy_relative_error[of
        "\<lparr> GroundTruth.foods = [], totalCalories = 400, totalProtein = 40, totalCarbs = 30,
           totalFat = 10 \<rparr>"
        "\<lparr> AiTotals.calories = 500, protein = 30, carbs = 90, fat = 5 \<rparr>"]
      nutritionAccuracy_relative_error[of
        "\<lparr> GroundTruth.foods = [], totalCalories = 0, totalProtein = 0, totalCarbs = 0,
           totalFat = 0 \<rparr>"
        "\<lparr> AiTotals.calories = 500, protein = 30, carbs = 90, fat = 5 \<rparr>"]
    by (intro conjI eq) simp_all
qed


section \<open>Aggregation\<close>

text \<open>
  C8. On the empty list every average is the quotient of the empty sum 0 by the length 0,
  which is \<^verbatim>\<open>NaN\<close>: every field of the result is \<^verbatim>\<open>NaN\<close>, none is 0.
\<close>

theorem aggregateMetrics_empty:
  "avg [] = js_div (Num 0) (Num 0)
   \<and> aggregateMetrics []
     = \<lparr> precision = NaN, recall = NaN, f1Score = NaN, foodDetectionAccuracy = NaN,
         quantityAccuracy = NaN, avgQuantityError = NaN, calorieAccuracy = NaN,
         proteinAccuracy = NaN, carbsAccuracy = NaN, fatAccuracy = NaN,
         overallScore = NaN \<rparr>"
  by (simp add: aggregateMetrics_def avg_def)


section \<open>The true-positive pass\<close>

text \<open>
  With no detected name, or no ground-truth name, nothing is claimed; so a positive count of
  true positives comes with non-empty lists, and the guarded divisions of
  \<^verbatim>\<open>calculateMetrics\<close> never divide by 0.
\<close>

lemma findTruePositives_no_detected: "findTruePositives [] actualFoods = (0, {})"
  by (simp add: findTruePositives_def)

lemma findTruePositives_no_actual: "findTruePositives detectedFoods [] = (0, {})"
proof -
  have "fold (scanActualFoods []) detectedFoods st = st" for st
    by (induction detectedFoods arbitrary: st) (simp_all add: scanActualFoods_def)
  then show ?thesis
    by (simp add: findTruePositives_def)
qed

lemma foodDetection_example:
  "foodDetection (map normalizeFood [''chicken'', ''rice''])
     (map normalizeFood [''Grilled  Chicken breast'', ''brown rice'', ''broccoli''])
   = \<lparr> truePositives = 2, falsePositives = 0, falseNegatives = 1, precision = 1,
       recall = 2 / 3, f1Score = 4 / 5, foodDetectionAccuracy = 2 / 3 \<rparr>"
  by (simp add: foodDetection_def pass_eval string_eval Let_def)

text \<open>
  C3. The claim: each detected name claims at most one ground-truth name, so that
  \<open>truePositives \<le> |detectedFoods|\<close>, \<open>falsePositives \<ge> 0\<close> and \<open>precision \<le> 1\<close>.
  The inner loop does not stop at the first match: the one detected name \<^verbatim>\<open>rice\<close> claims
  both \<^verbatim>\<open>fried rice\<close> and \<^verbatim>\<open>rice pudding\<close>, which gives 2 true positives for 1 detected
  food, \<open>-1\<close> false positives and a precision of 2.
\<close>

theorem truePositives_exceed_detected:
  "findTruePositives (map normalizeFood [''rice''])
      (map normalizeFood [''fried rice'', ''rice pudding'']) = (2, {0, 1})
   \<and> foodDetection (map normalizeFood [''rice''])
      (map normalizeFood [''fried rice'', ''rice pudding''])
     = \<lparr> truePositives = 2, falsePositives = - 1, falseNegatives = 0, precision = 2,
         recall = 1, f1Score = 4 / 3, foodDetectionAccuracy = 1 \<rparr>"
  by (simp add: foodDetection_def pass_eval string_eval Let_def insert_commute)

lemma scan_empty_name:
  assumes "normalizeFood d = []"
  shows "fold (matchActual d) (enumerate k xs) (tp, M)
     = (tp + int (card ({k..<k + length xs} - M)), M \<union> {k..<k + length xs})"
proof (induction xs arbitrary: k tp M)
  case Nil
  then show ?case by simp
next
  case (Cons x xs)
  define A where "A = {Suc k..<Suc k + length xs}"
  define B where "B = {k..<k + length (x # xs)}"
  have split: "B = insert k A"
    unfolding A_def B_def by auto
  have finA: "finite A"
    unfolding A_def by simp
  have unfold_fold: "fold (matchActual d) (enumerate k (x # xs)) (tp, M)
      = fold (matchActual d) (enumerate (Suc k) xs) (matchActual d (k, x) (tp, M))"
    by simp
  show ?case
  proof (cases "k \<in> M")
    case True
    have step: "matchActual d (k, x) (tp, M) = (tp, M)"
      using True by (simp add: matchActual_def)
    have diff: "B - M = A - M"
      unfolding split using True by auto
    have un: "M \<union> B = M \<union> A"
      unfolding split using True by auto
    have "fold (matchActual d) (enumerate k (x # xs)) (tp, M)
        = (tp + int (card (A - M)), M \<union> A)"
      unfolding unfold_fold step A_def by (rule Cons.IH)
    then show ?thesis
      unfolding B_def[symmetric] diff un .
  next
    case False
    have step: "matchActual d (k, x) (tp, M) = (tp + 1, insert k M)"
      using False foodsMatch_empty[OF assms, of x] by (simp add: matchActual_def)
    have diff: "B - M = insert k (A - insert k M)"
      unfolding split using False by auto
    have "k \<notin> A - insert k M" and "finite (A - insert k M)"
      using finA by simp_all
    then have card: "card (B - M) = Suc (card (A - insert k M))"
      unfolding diff by (rule card_insert_disjoint[rotated])
    have un: "M \<union> B = insert k M \<union> A"
      unfolding split by auto
    have "fold (matchActual d) (enumerate k (x # xs)) (tp, M)
        = (tp + 1 + int (card (A - insert k M)), insert k M \<union> A)"
      unfolding unfold_fold step A_def by (rule Cons.IH)
    also have "\<dots> = (tp + int (card (B - M)), M \<union> B)"
      unfolding card un by simp
    finally show ?thesis
      unfolding B_def .
  qed
qed

text \<open>
  C10. A detected food whose name normalises to the empty string matches every ground-truth
  name; in the true-positive pass its scan of the ground-truth names, from any state, claims
  every index not yet claimed and counts each as a true positive; alone, it makes every
  ground-truth food a true positive.
\<close>

theorem empty_name_claims_all:
  assumes "normalizeFood nm = []"
  shows "foodsMatch nm gtName
    \<and> scanActualFoods actualFoods (normalizeFood nm) (tp, matched)
        = (tp + int (card ({..<length actualFoods} - matched)),
           matched \<union> {..<length actualFoods})
    \<and> findTruePositives [normalizeFood nm] actualFoods
        = (int (length actualFoods), {..<length actualFoods})"
proof -
  have again: "normalizeFood (normalizeFood nm) = []"
    using assms by (simp add: normalizeFood_Nil)
  have scan: "scanActualFoods actualFoods (normalizeFood nm) (t, M)
       = (t + int (card ({..<length actualFoods} - M)), M \<union> {..<length actualFoods})" for t M
    using scan_empty_name[OF again, of 0 actualFoods t M]
    by (simp add: scanActualFoods_def atLeast0LessThan)
  show ?thesis
    using foodsMatch_empty[OF assms] scan by (simp add: findTruePositives_def)
qed

theorem empty_name_claims_all_witness:
  "normalizeFood '' '' = [] \<and> foodsMatch '' '' ''rice''
   \<and> scanActualFoods [''rice'', ''egg'', ''tea''] (normalizeFood '' '') (1, {1})
       = (3, {0, 1, 2})
   \<and> findTruePositives [normalizeFood '' ''] [''rice'', ''egg'', ''tea'']
       = (3, {0, 1, 2})"
proof -
  have h: "normalizeFood '' '' = []"
    by (simp add: normalizeFood_def string_eval)
  have s1: "{..<length [''rice'', ''egg'', ''tea'']} = {0, 1, 2::nat}"
    by auto
  have s2: "{0, 1, 2::nat} - {1} = {0, 2}"
    by auto
  show ?thesis
    using h empty_name_claims_all[OF h, of "''rice''" "[''rice'', ''egg'', ''tea'']" 1 "{1}"]
    unfolding s1 s2 by (simp add: insert_commute)
qed


section \<open>The result of calculateMetrics\<close>

text \<open>
  C1. The claim: \<^verbatim>\<open>calculateMetrics\<close> never throws and returns default metrics for
  degenerate inputs. With no detected food and no ground-truth food the call throws the
  \<^verbatim>\<open>ReferenceError\<close> of the read of \<^verbatim>\<open>fatAccuracy\<close> inside its own initialiser.
\<close>

theorem calculateMetrics_throws_on_empty:
  "calculateMetrics
     \<lparr> AIAnalysisResult.foods = [], confidence = 1 / 2, notes = None \<rparr>
     \<lparr> GroundTruth.foods = [], totalCalories = 0, totalProtein = 0, totalCarbs = 0,
       totalFat = 0 \<rparr>
   = Inl ReferenceError"
  by (simp add: calculateMetrics_def Let_def)

text \<open>
  C2. The claim: every record produced has the weighted overall score, and \<^verbatim>\<open>fatAccuracy\<close>
  does not depend on its own prior value. The initialiser of \<^verbatim>\<open>fatAccuracy\<close> reads
  \<^verbatim>\<open>fatAccuracy\<close> itself, so for every input the call throws and no record is produced.
\<close>

theorem calculateMetrics_reads_own_binding:
  "calculateMetrics aiResult groundTruth = Inl ReferenceError
   \<and> (\<nexists>metrics. calculateMetrics aiResult groundTruth = Inr metrics)"
  by (simp add: calculateMetrics_def Let_def)

end
